theory Spec2Isabelle
  imports Complex_Main
begin

section \<open>Values: JSON, event dictionaries, pynput objects\<close>

text \<open>
  The worker stores every captured event as a Python dict and hands the dicts to
  \<^verbatim>\<open>requests.post(..., json=...)\<close>. A dict is an association list in insertion
  order; its values are JSON values. \<^verbatim>\<open>time.time()\<close> is read by the callbacks; the
  value read is an argument of the modelled callback and no arithmetic is done on it.
\<close>

type_synonym timestamp = real

datatype json =
    JNull
  | JBool bool
  | JInt int
  | JNum real
  | JStr string
  | JArr "json list"
  | JObj "(string \<times> json) list"

type_synonym pydict = "(string \<times> json) list"

text \<open>
  pynput hands \<^verbatim>\<open>on_press\<close>/\<open>on_release\<close> either a \<^verbatim>\<open>KeyCode\<close>, which has an
  attribute \<^verbatim>\<open>char\<close> (a string, or \<^verbatim>\<open>None\<close> for a key without a character), or a
  member of the enum \<^verbatim>\<open>Key\<close>, which has no such attribute and whose \<^verbatim>\<open>str\<close> is
  \<^verbatim>\<open>Key.<name>\<close>. A mouse button is a member of the enum \<^verbatim>\<open>Button\<close>.
\<close>

datatype key = KeyCode "string option" | Key string

datatype button = Button string

datatype error = AttributeError | RuntimeError

text \<open>
  \<^verbatim>\<open>str(key)\<close> is evaluated by the callbacks only after \<^verbatim>\<open>key.char\<close> has raised,
  so only on a member of \<^verbatim>\<open>Key\<close>: the enum's name, a dot, the member's name.
\<close>

definition str_Key :: "string \<Rightarrow> string" where
  "str_Key n = ''Key.'' @ n"

fun str_button :: "button \<Rightarrow> string" where
  "str_button (Button n) = ''Button.'' @ n"

fun json_of_char :: "string option \<Rightarrow> json" where
  "json_of_char None = JNull"
| "json_of_char (Some s) = JStr s"

section \<open>The worker\<close>

text \<open>
  A \<^verbatim>\<open>threading.Thread\<close> (the pynput listeners are threads too) is started at most
  once: \<^verbatim>\<open>start()\<close> on a thread that was started before raises \<^verbatim>\<open>RuntimeError\<close>,
  \<^verbatim>\<open>join()\<close> on a thread never started raises \<^verbatim>\<open>RuntimeError\<close>, and a listener's
  \<^verbatim>\<open>stop()\<close> does nothing unless the listener is running.
\<close>

datatype thread_status = Initial | Started | Finished

fun thread_start :: "thread_status \<Rightarrow> error + thread_status" where
  "thread_start Initial = Inr Started"
| "thread_start Started = Inl RuntimeError"
| "thread_start Finished = Inl RuntimeError"

fun listener_stop :: "thread_status \<Rightarrow> thread_status" where
  "listener_stop Started = Finished"
| "listener_stop Initial = Initial"
| "listener_stop Finished = Finished"

text \<open>
  What \<^verbatim>\<open>requests.post\<close> does is decided outside the program: it returns a response
  (whatever its status code: the worker never looks at it), or it raises a
  \<^verbatim>\<open>RequestException\<close>.
\<close>

datatype post_result = Response nat | RequestException

record post_call =
  post_url :: string
  post_json :: json
  post_outcome :: post_result

text \<open>
  The fields of \<^verbatim>\<open>BackgroundWorker\<close>. \<open>data_thread\<close> is \<open>None\<close> until \<^verbatim>\<open>start\<close>
  assigns the attribute. Two fields stand for the world outside the object:
  \<open>network\<close> lists the calls of \<^verbatim>\<open>requests.post\<close> made so far, \<open>spawned\<close> counts the
  flush threads created so far.
\<close>

record worker =
  session_id :: string
  user_id :: int
  api_url :: string
  stop_event :: bool
  mouse_listener :: thread_status
  keyboard_listener :: thread_status
  mouse_events :: "pydict list"
  keyboard_events :: "pydict list"
  data_thread :: "thread_status option"
  spawned :: nat
  network :: "post_call list"

definition default_api_url :: string where
  "default_api_url = ''http://127.0.0.1:5000/api/background_data''"

definition BackgroundWorker_init :: "string \<Rightarrow> int \<Rightarrow> string \<Rightarrow> worker" where
  "BackgroundWorker_init sid uid url =
     \<lparr> session_id = sid, user_id = uid, api_url = url, stop_event = False,
       mouse_listener = Initial, keyboard_listener = Initial,
       mouse_events = [], keyboard_events = [],
       data_thread = None, spawned = 0, network = [] \<rparr>"

subsection \<open>Capture callbacks\<close>

definition move_event :: "int \<Rightarrow> int \<Rightarrow> timestamp \<Rightarrow> pydict" where
  "move_event x y t =
     [(''type'', JStr ''move''), (''x'', JInt x), (''y'', JInt y), (''timestamp'', JNum t)]"

definition click_event :: "int \<Rightarrow> int \<Rightarrow> button \<Rightarrow> bool \<Rightarrow> timestamp \<Rightarrow> pydict" where
  "click_event x y b pressed t =
     [(''type'', JStr ''click''), (''x'', JInt x), (''y'', JInt y),
      (''button'', JStr (str_button b)), (''pressed'', JBool pressed), (''timestamp'', JNum t)]"

definition scroll_event :: "int \<Rightarrow> int \<Rightarrow> int \<Rightarrow> int \<Rightarrow> timestamp \<Rightarrow> pydict" where
  "scroll_event x y dx dy t =
     [(''type'', JStr ''scroll''), (''x'', JInt x), (''y'', JInt y),
      (''dx'', JInt dx), (''dy'', JInt dy), (''timestamp'', JNum t)]"

definition key_event :: "string \<Rightarrow> json \<Rightarrow> timestamp \<Rightarrow> pydict" where
  "key_event ty k t = [(''type'', JStr ty), (''key'', k), (''timestamp'', JNum t)]"

definition on_move :: "int \<Rightarrow> int \<Rightarrow> timestamp \<Rightarrow> worker \<Rightarrow> worker" where
  "on_move x y t w = w\<lparr>mouse_events := mouse_events w @ [move_event x y t]\<rparr>"

definition on_click :: "int \<Rightarrow> int \<Rightarrow> button \<Rightarrow> bool \<Rightarrow> timestamp \<Rightarrow> worker \<Rightarrow> worker" where
  "on_click x y b pressed t w =
     w\<lparr>mouse_events := mouse_events w @ [click_event x y b pressed t]\<rparr>"

definition on_scroll :: "int \<Rightarrow> int \<Rightarrow> int \<Rightarrow> int \<Rightarrow> timestamp \<Rightarrow> worker \<Rightarrow> worker" where
  "on_scroll x y dx dy t w =
     w\<lparr>mouse_events := mouse_events w @ [scroll_event x y dx dy t]\<rparr>"

text \<open>
  \<^verbatim>\<open>on_press\<close> and \<^verbatim>\<open>on_release\<close> read \<^verbatim>\<open>key.char\<close> inside \<^verbatim>\<open>try\<close>; when the
  attribute is missing the \<^verbatim>\<open>except AttributeError\<close> branch records \<^verbatim>\<open>str(key)\<close>.
  The first case below is the \<^verbatim>\<open>try\<close> branch running to its end (the key is a
  \<^verbatim>\<open>KeyCode\<close>, the attribute exists), the second the \<^verbatim>\<open>except\<close> branch (the key is a
  member of \<^verbatim>\<open>Key\<close>, reading the attribute raises).
\<close>

definition on_press :: "key \<Rightarrow> timestamp \<Rightarrow> worker \<Rightarrow> worker" where
  "on_press k t w =
     (case k of
        KeyCode c \<Rightarrow>
          w\<lparr>keyboard_events := keyboard_events w @ [key_event ''press'' (json_of_char c) t]\<rparr>
      | Key n \<Rightarrow>
          w\<lparr>keyboard_events := keyboard_events w @ [key_event ''press'' (JStr (str_Key n)) t]\<rparr>)"

definition on_release :: "key \<Rightarrow> timestamp \<Rightarrow> worker \<Rightarrow> worker" where
  "on_release k t w =
     (case k of
        KeyCode c \<Rightarrow>
          w\<lparr>keyboard_events := keyboard_events w @ [key_event ''release'' (json_of_char c) t]\<rparr>
      | Key n \<Rightarrow>
          w\<lparr>keyboard_events := keyboard_events w @ [key_event ''release'' (JStr (str_Key n)) t]\<rparr>)"

subsection \<open>The flush loop\<close>

text \<open>
  One iteration of the loop of \<^verbatim>\<open>send_data\<close> after its \<^verbatim>\<open>time.sleep(5)\<close>: the
  argument is what \<^verbatim>\<open>requests.post\<close> does if it is called.
\<close>

definition data_to_send :: "worker \<Rightarrow> json" where
  "data_to_send w =
     JObj [(''session_id'', JStr (session_id w)),
           (''user_id'', JInt (user_id w)),
           (''mouse_data'', JArr (map JObj (mouse_events w))),
           (''keyboard_data'', JArr (map JObj (keyboard_events w)))]"

definition send_data_cycle :: "post_result \<Rightarrow> worker \<Rightarrow> worker" where
  "send_data_cycle r w =
     (if mouse_events w \<noteq> [] \<or> keyboard_events w \<noteq> [] then
        (let w1 = w\<lparr>network := network w @
                    [\<lparr>post_url = api_url w, post_json = data_to_send w, post_outcome = r\<rparr>]\<rparr>
         in case r of
              Response status \<Rightarrow> w1\<lparr>mouse_events := [], keyboard_events := []\<rparr>
            | RequestException \<Rightarrow> w1)
      else w)"

text \<open>
  What the other threads do while the flush thread runs: the listeners call the
  callbacks, the controller sets the stop event, and \<open>Wake r\<close> is the end of one
  \<^verbatim>\<open>time.sleep(5)\<close> of the flush thread, followed by the rest of that iteration.
\<close>

datatype op =
    OnMove int int timestamp
  | OnClick int int button bool timestamp
  | OnScroll int int int int timestamp
  | OnPress key timestamp
  | OnRelease key timestamp
  | SetStop
  | Wake post_result

fun step :: "op \<Rightarrow> worker \<Rightarrow> worker" where
  "step (OnMove x y t) w = on_move x y t w"
| "step (OnClick x y b p t) w = on_click x y b p t w"
| "step (OnScroll x y dx dy t) w = on_scroll x y dx dy t w"
| "step (OnPress k t) w = on_press k t w"
| "step (OnRelease k t) w = on_release k t w"
| "step SetStop w = w\<lparr>stop_event := True\<rparr>"
| "step (Wake r) w = send_data_cycle r w"

fun run :: "op list \<Rightarrow> worker \<Rightarrow> worker" where
  "run [] w = w"
| "run (a # ops) w = run ops (step a w)"

text \<open>
  \<^verbatim>\<open>send_data\<close> itself: the loop tests the stop event, sleeps (the other threads act),
  and runs one iteration. The list is what happens from the moment the loop starts; the
  result is \<open>None\<close> when the list ends with the loop still running.
\<close>

fun send_data :: "op list \<Rightarrow> worker \<Rightarrow> worker option"
  and sleep :: "op list \<Rightarrow> worker \<Rightarrow> worker option" where
  "send_data ops w = (if stop_event w then Some w else sleep ops w)"
| "sleep [] w = None"
| "sleep (Wake r # ops) w = send_data ops (send_data_cycle r w)"
| "sleep (a # ops) w = sleep ops (step a w)"

subsection \<open>Lifecycle\<close>

datatype outcome = Returned | Raised error

definition start :: "worker \<Rightarrow> worker \<times> outcome" where
  "start w =
     (let w1 = w\<lparr>stop_event := False\<rparr> in
      case thread_start (mouse_listener w1) of
        Inl e \<Rightarrow> (w1, Raised e)
      | Inr m \<Rightarrow>
          (let w2 = w1\<lparr>mouse_listener := m\<rparr> in
           case thread_start (keyboard_listener w2) of
             Inl e \<Rightarrow> (w2, Raised e)
           | Inr k \<Rightarrow>
               (let w3 = w2\<lparr>keyboard_listener := k\<rparr> in
                (w3\<lparr>data_thread := Some Started, spawned := Suc (spawned w3)\<rparr>, Returned))))"

text \<open>
  \<^verbatim>\<open>data_thread.join()\<close> returns once the flush thread has left \<^verbatim>\<open>send_data\<close>. A
  running flush thread is in its sleep; with the stop event set it finishes the sleep,
  runs the rest of the iteration (\<open>r\<close> is what its POST does) and leaves at the next
  test of the loop.
\<close>

definition thread_join :: "post_result \<Rightarrow> thread_status \<Rightarrow> worker \<Rightarrow> worker \<times> outcome" where
  "thread_join r th w =
     (case th of
        Initial \<Rightarrow> (w, Raised RuntimeError)
      | Started \<Rightarrow> ((send_data_cycle r w)\<lparr>data_thread := Some Finished\<rparr>, Returned)
      | Finished \<Rightarrow> (w, Returned))"

definition stop :: "post_result \<Rightarrow> worker \<Rightarrow> worker \<times> outcome" where
  "stop r w =
     (let w1 = w\<lparr>stop_event := True\<rparr>;
          w2 = w1\<lparr>mouse_listener := listener_stop (mouse_listener w1)\<rparr>;
          w3 = w2\<lparr>keyboard_listener := listener_stop (keyboard_listener w2)\<rparr>
      in case data_thread w3 of
           None \<Rightarrow> (w3, Raised AttributeError)
         | Some th \<Rightarrow> thread_join r th w3)"

subsection \<open>The controller: \<^verbatim>\<open>WindowsApp\<close>\<close>

record windows_app =
  app_session_id :: string
  app_user_id :: int
  background_worker :: "worker option"

definition WindowsApp_init :: windows_app where
  "WindowsApp_init =
     \<lparr> app_session_id = ''windows_session'', app_user_id = 1, background_worker = None \<rparr>"

definition start_background_worker :: "windows_app \<Rightarrow> windows_app \<times> outcome" where
  "start_background_worker app =
     (case background_worker app of
        None \<Rightarrow>
          (let (w, res) = start (BackgroundWorker_init (app_session_id app) (app_user_id app)
                                   default_api_url)
           in (app\<lparr>background_worker := Some w\<rparr>, res))
      | Some w \<Rightarrow> (app, Returned))"

definition stop_background_worker :: "post_result \<Rightarrow> windows_app \<Rightarrow> windows_app \<times> outcome" where
  "stop_background_worker r app =
     (case background_worker app of
        Some w \<Rightarrow>
          (case stop r w of
             (w', Returned) \<Rightarrow> (app\<lparr>background_worker := None\<rparr>, Returned)
           | (w', Raised e) \<Rightarrow> (app\<lparr>background_worker := Some w'\<rparr>, Raised e))
      | None \<Rightarrow> (app, Returned))"

section \<open>Reading the record of the network and of the capture\<close>

text \<open>Accessors for a JSON body: a field of an object, its keys, the dicts of an array.\<close>

fun json_field :: "string \<Rightarrow> json \<Rightarrow> json option" where
  "json_field k (JObj kvs) = map_of kvs k"
| "json_field k j = None"

fun json_keys :: "json \<Rightarrow> string list" where
  "json_keys (JObj kvs) = map fst kvs"
| "json_keys j = []"

fun dict_of :: "json \<Rightarrow> pydict list" where
  "dict_of (JObj kvs) = [kvs]"
| "dict_of j = []"

fun dicts_of :: "json option \<Rightarrow> pydict list" where
  "dicts_of (Some (JArr js)) = concat (map dict_of js)"
| "dicts_of j = []"

definition mouse_data :: "post_call \<Rightarrow> pydict list" where
  "mouse_data c = dicts_of (json_field ''mouse_data'' (post_json c))"

definition keyboard_data :: "post_call \<Rightarrow> pydict list" where
  "keyboard_data c = dicts_of (json_field ''keyboard_data'' (post_json c))"



text \<open>The event one captured input stands for, in each of the two streams.\<close>

fun recorded_mouse :: "op \<Rightarrow> pydict list" where
  "recorded_mouse (OnMove x y t) = [move_event x y t]"
| "recorded_mouse (OnClick x y b p t) = [click_event x y b p t]"
| "recorded_mouse (OnScroll x y dx dy t) = [scroll_event x y dx dy t]"
| "recorded_mouse a = []"

fun recorded_key :: "op \<Rightarrow> pydict list" where
  "recorded_key (OnPress (KeyCode c) t) = [key_event ''press'' (json_of_char c) t]"
| "recorded_key (OnPress (Key n) t) = [key_event ''press'' (JStr (str_Key n)) t]"
| "recorded_key (OnRelease (KeyCode c) t) = [key_event ''release'' (json_of_char c) t]"
| "recorded_key (OnRelease (Key n) t) = [key_event ''release'' (JStr (str_Key n)) t]"
| "recorded_key a = []"

fun is_wake :: "op \<Rightarrow> bool" where
  "is_wake (Wake r) = True"
| "is_wake a = False"

text \<open>
  A worker is running after a \<^verbatim>\<open>start\<close> that returned and before the next
  \<^verbatim>\<open>stop\<close>: both listeners and the flush thread are started, the stop event is clear.
\<close>

definition is_running :: "worker \<Rightarrow> bool" where
  "is_running w \<longleftrightarrow>
     mouse_listener w = Started \<and> keyboard_listener w = Started \<and>
     data_thread w = Some Started \<and> \<not> stop_event w"

text \<open>A worker constructed and started: what the controller makes on the start signal.\<close>

definition started_worker :: "string \<Rightarrow> int \<Rightarrow> string \<Rightarrow> worker" where
  "started_worker sid uid url = fst (start (BackgroundWorker_init sid uid url))"

definition active_listeners :: "worker \<Rightarrow> nat" where
  "active_listeners w = length (filter (\<lambda>s. s = Started) [mouse_listener w, keyboard_listener w])"

text \<open>
  A call of \<^verbatim>\<open>requests.post\<close> as the worker with these identifiers and this endpoint
  makes it: the body is an object with the four keys in this order, the identifiers are
  the given ones, and the two data fields are arrays of event dicts.
\<close>

definition well_formed_call :: "string \<Rightarrow> int \<Rightarrow> string \<Rightarrow> post_call \<Rightarrow> bool" where
  "well_formed_call sid uid url c \<longleftrightarrow>
     post_url c = url \<and>
     json_keys (post_json c) = [''session_id'', ''user_id'', ''mouse_data'', ''keyboard_data''] \<and>
     json_field ''session_id'' (post_json c) = Some (JStr sid) \<and>
     json_field ''user_id'' (post_json c) = Some (JInt uid) \<and>
     json_field ''mouse_data'' (post_json c) = Some (JArr (map JObj (mouse_data c))) \<and>
     json_field ''keyboard_data'' (post_json c) = Some (JArr (map JObj (keyboard_data c)))"

section \<open>Shared lemmas\<close>

lemma started_worker_state:
  "started_worker sid uid url =
     \<lparr> session_id = sid, user_id = uid, api_url = url, stop_event = False,
       mouse_listener = Started, keyboard_listener = Started,
       mouse_events = [], keyboard_events = [],
       data_thread = Some Started, spawned = 1, network = [] \<rparr>"
  by (simp add: started_worker_def start_def BackgroundWorker_init_def Let_def)

lemma dicts_of_map_JObj: "concat (map (dict_of \<circ> JObj) es) = es"
  by (induction es) simp_all

lemma mouse_data_call:
  "mouse_data \<lparr>post_url = u, post_json = data_to_send w, post_outcome = r\<rparr> = mouse_events w"
  by (simp add: mouse_data_def data_to_send_def dicts_of_map_JObj)

lemma keyboard_data_call:
  "keyboard_data \<lparr>post_url = u, post_json = data_to_send w, post_outcome = r\<rparr> = keyboard_events w"
  by (simp add: keyboard_data_def data_to_send_def dicts_of_map_JObj)


section \<open>Conservation of events across flush cycles\<close>









section \<open>The loop and the stop event\<close>

text \<open>
  The loop tests the stop event only before each sleep: once the event is set during a
  sleep, the loop still runs the iteration that follows the sleep, and leaves after it.
  \<open>thread_join\<close> relies on this.
\<close>

lemma cycle_keeps_stop_event: "stop_event (send_data_cycle r w) = stop_event w"
  by (cases r) (simp_all add: send_data_cycle_def Let_def)

lemma send_data_leaves_after_stop:
  "\<not> stop_event w \<Longrightarrow>
   send_data (SetStop # Wake r # ops) w = Some (send_data_cycle r (w\<lparr>stop_event := True\<rparr>))"
  by (simp add: cycle_keeps_stop_event)

lemma send_data_stopped: "stop_event w \<Longrightarrow> send_data ops w = Some w"
  by simp

section \<open>Flush cycles\<close>

text \<open>Callbacks and stop signals between two cycles append to the buffers and send nothing.\<close>

lemma run_records:
  "\<not> list_ex is_wake recs \<Longrightarrow>
   mouse_events (run recs w) = mouse_events w @ concat (map recorded_mouse recs) \<and>
   keyboard_events (run recs w) = keyboard_events w @ concat (map recorded_key recs) \<and>
   network (run recs w) = network w"
proof (induction recs arbitrary: w)
  case Nil
  show ?case by simp
next
  case (Cons a recs)
  from Cons.prems have rest: "\<not> list_ex is_wake recs" and a: "\<not> is_wake a" by simp_all
  from a have "mouse_events (step a w) = mouse_events w @ recorded_mouse a \<and>
               keyboard_events (step a w) = keyboard_events w @ recorded_key a \<and>
               network (step a w) = network w"
    by (cases a)
       (auto simp: on_move_def on_click_def on_scroll_def on_press_def on_release_def
          split: key.splits)
  with Cons.IH [OF rest, of "step a w"] show ?case by simp
qed

text \<open>
  C2, as the code has it. A flush cycle makes at most one POST (nothing is retried
  within the cycle). When the POST raises a request exception the worker changes nothing
  but the network: the batch stays in the two buffers. When the POST returns a response,
  whatever its status, both buffers are emptied, so that batch is gone from the worker.
  A cycle that follows a raised POST acts as it would have on the state before it: it
  sends the same body again, and if that POST is answered the buffers are emptied.
\<close>

theorem failed_post_keeps_batch_answered_post_drops_it:
  "length (network (send_data_cycle r w)) \<le> Suc (length (network w)) \<and>
   send_data_cycle RequestException w = w\<lparr>network := network (send_data_cycle RequestException w)\<rparr> \<and>
   (mouse_events w \<noteq> [] \<or> keyboard_events w \<noteq> [] \<longrightarrow>
      network (send_data_cycle RequestException w) =
        network w @ [\<lparr>post_url = api_url w, post_json = data_to_send w, post_outcome = RequestException\<rparr>] \<and>
      send_data_cycle (Response status) w =
        w\<lparr>network := network w @
              [\<lparr>post_url = api_url w, post_json = data_to_send w, post_outcome = Response status\<rparr>],
          mouse_events := [], keyboard_events := []\<rparr> \<and>
      send_data_cycle r' (send_data_cycle RequestException w) =
        (send_data_cycle r' w)\<lparr>network := network w @
              [\<lparr>post_url = api_url w, post_json = data_to_send w, post_outcome = RequestException\<rparr>,
               \<lparr>post_url = api_url w, post_json = data_to_send w, post_outcome = r'\<rparr>]\<rparr>)"
proof (intro conjI impI)
  show "length (network (send_data_cycle r w)) \<le> Suc (length (network w))"
    by (cases r) (simp_all add: send_data_cycle_def Let_def)
  show "send_data_cycle RequestException w = w\<lparr>network := network (send_data_cycle RequestException w)\<rparr>"
    by (simp add: send_data_cycle_def Let_def)
next
  assume buffered: "mouse_events w \<noteq> [] \<or> keyboard_events w \<noteq> []"
  then show "network (send_data_cycle RequestException w) =
        network w @ [\<lparr>post_url = api_url w, post_json = data_to_send w, post_outcome = RequestException\<rparr>]"
    by (auto simp: send_data_cycle_def Let_def)
  from buffered show "send_data_cycle (Response status) w =
        w\<lparr>network := network w @
              [\<lparr>post_url = api_url w, post_json = data_to_send w, post_outcome = Response status\<rparr>],
          mouse_events := [], keyboard_events := []\<rparr>"
    by (auto simp: send_data_cycle_def Let_def)
  from buffered show "send_data_cycle r' (send_data_cycle RequestException w) =
        (send_data_cycle r' w)\<lparr>network := network w @
              [\<lparr>post_url = api_url w, post_json = data_to_send w, post_outcome = RequestException\<rparr>,
               \<lparr>post_url = api_url w, post_json = data_to_send w, post_outcome = r'\<rparr>]\<rparr>"
    by (cases r') (auto simp: send_data_cycle_def Let_def data_to_send_def)
qed

text \<open>The theorem on a worker holding one move: status 500, then a raise followed by 200.\<close>

theorem failed_post_keeps_batch_answered_post_drops_it_witness:
  "mouse_events (on_move 10 20 1 (started_worker ''s1'' 1 default_api_url)) \<noteq> [] \<and>
   mouse_events (send_data_cycle (Response 500)
      (on_move 10 20 1 (started_worker ''s1'' 1 default_api_url))) = [] \<and>
   map post_outcome (network (send_data_cycle (Response 200) (send_data_cycle RequestException
      (on_move 10 20 1 (started_worker ''s1'' 1 default_api_url))))) =
     [RequestException, Response 200] \<and>
   mouse_events (send_data_cycle (Response 200) (send_data_cycle RequestException
      (on_move 10 20 1 (started_worker ''s1'' 1 default_api_url)))) = []"
proof -
  let ?w = "on_move 10 20 1 (started_worker ''s1'' 1 default_api_url)"
  have buffered: "mouse_events ?w = [move_event 10 20 1]" "keyboard_events ?w = []" "network ?w = []"
    by (simp_all add: on_move_def started_worker_state)
  have direct: "mouse_events (send_data_cycle (Response 200) ?w) = []"
    using buffered by (simp add: send_data_cycle_def Let_def)
  from failed_post_keeps_batch_answered_post_drops_it [of "Response 200" ?w 500 "Response 200"] buffered direct
  show ?thesis by simp
qed

text \<open>
  C2 as stated fails: after a cycle whose POST raised, the move is still buffered, and
  the next cycle sends it a second time.
\<close>

theorem raised_batch_is_kept_and_sent_again:
  "mouse_events (send_data_cycle RequestException
      (on_move 10 20 1 (started_worker ''s1'' 1 default_api_url))) = [move_event 10 20 1] \<and>
   map mouse_data (network (send_data_cycle (Response 200) (send_data_cycle RequestException
      (on_move 10 20 1 (started_worker ''s1'' 1 default_api_url))))) =
     [[move_event 10 20 1], [move_event 10 20 1]] \<and>
   map post_outcome (network (send_data_cycle (Response 200) (send_data_cycle RequestException
      (on_move 10 20 1 (started_worker ''s1'' 1 default_api_url))))) =
     [RequestException, Response 200]"
  by (simp add: started_worker_state on_move_def send_data_cycle_def Let_def
        mouse_data_def data_to_send_def)

text \<open>
  C6, as the code has it. A wakeup that finds both buffers empty changes nothing: no
  POST is made. And when the POST of one wakeup was answered (or there was nothing to
  send) and no event is captured before the next wakeup, the next wakeup makes no POST.
\<close>

theorem idle_wakeup_sends_nothing:
  "(mouse_events w = [] \<and> keyboard_events w = [] \<longrightarrow> send_data_cycle r w = w) \<and>
   (\<not> list_ex is_wake recs \<longrightarrow> concat (map recorded_mouse recs) = [] \<longrightarrow> concat (map recorded_key recs) = [] \<longrightarrow>
      network (send_data_cycle r (run recs (send_data_cycle (Response status) w))) =
      network (send_data_cycle (Response status) w))"
proof (intro conjI impI)
  assume "mouse_events w = [] \<and> keyboard_events w = []"
  then show "send_data_cycle r w = w" by (simp add: send_data_cycle_def)
next
  assume recs: "\<not> list_ex is_wake recs"
    and none: "concat (map recorded_mouse recs) = []" "concat (map recorded_key recs) = []"
  define w1 where "w1 = send_data_cycle (Response status) w"
  have empty: "mouse_events w1 = []" "keyboard_events w1 = []"
    by (auto simp: w1_def send_data_cycle_def Let_def)
  from run_records [OF recs, of w1] none empty
  have "mouse_events (run recs w1) = []" "keyboard_events (run recs w1) = []"
    "network (run recs w1) = network w1"
    by simp_all
  then show "network (send_data_cycle r (run recs (send_data_cycle (Response status) w))) =
      network (send_data_cycle (Response status) w)"
    unfolding w1_def by (simp add: send_data_cycle_def)
qed

text \<open>
  The theorem on a new worker (an idle wakeup), and on a worker holding one move: an
  answered POST, a stop signal, a second wakeup; one POST in all.
\<close>

theorem idle_wakeup_sends_nothing_witness:
  "mouse_events (started_worker ''s1'' 1 default_api_url) = [] \<and>
   keyboard_events (started_worker ''s1'' 1 default_api_url) = [] \<and>
   network (send_data_cycle (Response 200) (started_worker ''s1'' 1 default_api_url)) = [] \<and>
   \<not> list_ex is_wake [SetStop] \<and>
   length (network (send_data_cycle (Response 200) (run [SetStop] (send_data_cycle (Response 200)
      (on_move 10 20 1 (started_worker ''s1'' 1 default_api_url)))))) = 1"
proof -
  let ?w = "started_worker ''s1'' 1 default_api_url"
  have empty: "mouse_events ?w = []" "keyboard_events ?w = []" "network ?w = []"
    by (simp_all add: started_worker_state)
  have first: "length (network (send_data_cycle (Response 200) (on_move 10 20 1 ?w))) = 1"
    by (simp add: started_worker_state on_move_def send_data_cycle_def Let_def)
  from idle_wakeup_sends_nothing [of ?w "Response 200" "[SetStop]" 200]
       idle_wakeup_sends_nothing [of "on_move 10 20 1 ?w" "Response 200" "[SetStop]" 200] empty first
  show ?thesis by simp
qed

text \<open>
  C6 as stated fails when the first POST raises: with no event captured in between, the
  second wakeup makes a POST.
\<close>

theorem second_wakeup_sends_after_raise:
  "network (send_data_cycle (Response 200) (send_data_cycle RequestException
      (on_move 10 20 1 (started_worker ''s1'' 1 default_api_url)))) \<noteq>
   network (send_data_cycle RequestException
      (on_move 10 20 1 (started_worker ''s1'' 1 default_api_url))) \<and>
   length (network (send_data_cycle (Response 200) (send_data_cycle RequestException
      (on_move 10 20 1 (started_worker ''s1'' 1 default_api_url))))) = 2"
  by (simp add: started_worker_state on_move_def send_data_cycle_def Let_def)

text \<open>
  C9. A cycle whose POST raises leaves both event lists as they were; the lists are
  emptied by a cycle whose POST returns. After a raised POST of a non-empty batch, and
  whatever is captured before the next wakeup, the next cycle makes one POST whose
  body holds every event of the failed batch, followed by the events captured since.
\<close>

theorem raised_post_leaves_buffers:
  "mouse_events (send_data_cycle RequestException w) = mouse_events w \<and>
   keyboard_events (send_data_cycle RequestException w) = keyboard_events w \<and>
   (mouse_events w \<noteq> [] \<or> keyboard_events w \<noteq> [] \<longrightarrow>
      mouse_events (send_data_cycle (Response status) w) = [] \<and>
      keyboard_events (send_data_cycle (Response status) w) = []) \<and>
   (mouse_events w \<noteq> [] \<or> keyboard_events w \<noteq> [] \<longrightarrow> \<not> list_ex is_wake recs \<longrightarrow>
      (\<exists>c. network (send_data_cycle r (run recs (send_data_cycle RequestException w))) =
             network (send_data_cycle RequestException w) @ [c] \<and>
           mouse_data c = mouse_events w @ concat (map recorded_mouse recs) \<and>
           keyboard_data c = keyboard_events w @ concat (map recorded_key recs)))"
proof (intro conjI impI)
  show "mouse_events (send_data_cycle RequestException w) = mouse_events w"
    by (simp add: send_data_cycle_def Let_def)
  show "keyboard_events (send_data_cycle RequestException w) = keyboard_events w"
    by (simp add: send_data_cycle_def Let_def)
next
  assume "mouse_events w \<noteq> [] \<or> keyboard_events w \<noteq> []"
  then show "mouse_events (send_data_cycle (Response status) w) = []"
    and "keyboard_events (send_data_cycle (Response status) w) = []"
    by (auto simp: send_data_cycle_def Let_def)
next
  assume buffered: "mouse_events w \<noteq> [] \<or> keyboard_events w \<noteq> []"
    and recs: "\<not> list_ex is_wake recs"
  define w1 where "w1 = send_data_cycle RequestException w"
  define w2 where "w2 = run recs w1"
  have kept: "mouse_events w1 = mouse_events w" "keyboard_events w1 = keyboard_events w"
    by (simp_all add: w1_def send_data_cycle_def Let_def)
  from run_records [OF recs, of w1]
  have w2: "mouse_events w2 = mouse_events w @ concat (map recorded_mouse recs)"
    "keyboard_events w2 = keyboard_events w @ concat (map recorded_key recs)"
    "network w2 = network w1"
    by (simp_all add: w2_def kept)
  from buffered w2 have "mouse_events w2 \<noteq> [] \<or> keyboard_events w2 \<noteq> []" by auto
  then have "network (send_data_cycle r w2) =
      network w2 @ [\<lparr>post_url = api_url w2, post_json = data_to_send w2, post_outcome = r\<rparr>]"
    by (cases r) (auto simp: send_data_cycle_def Let_def)
  then have "network (send_data_cycle r w2) =
        network w1 @ [\<lparr>post_url = api_url w2, post_json = data_to_send w2, post_outcome = r\<rparr>] \<and>
      mouse_data \<lparr>post_url = api_url w2, post_json = data_to_send w2, post_outcome = r\<rparr> =
        mouse_events w @ concat (map recorded_mouse recs) \<and>
      keyboard_data \<lparr>post_url = api_url w2, post_json = data_to_send w2, post_outcome = r\<rparr> =
        keyboard_events w @ concat (map recorded_key recs)"
    by (simp add: w2 mouse_data_call keyboard_data_call)
  then show "\<exists>c. network (send_data_cycle r (run recs (send_data_cycle RequestException w))) =
             network (send_data_cycle RequestException w) @ [c] \<and>
           mouse_data c = mouse_events w @ concat (map recorded_mouse recs) \<and>
           keyboard_data c = keyboard_events w @ concat (map recorded_key recs)"
    unfolding w1_def w2_def by blast
qed

text \<open>
  The theorem on a worker holding one move: the POST raises, a key without character is
  pressed, the next POST carries the move and the press.
\<close>

theorem raised_post_leaves_buffers_witness:
  "mouse_events (on_move 10 20 1 (started_worker ''s1'' 1 default_api_url)) \<noteq> [] \<and>
   \<not> list_ex is_wake [OnPress (KeyCode None) 2] \<and>
   mouse_events (send_data_cycle RequestException
      (on_move 10 20 1 (started_worker ''s1'' 1 default_api_url))) = [move_event 10 20 1] \<and>
   (\<exists>c. network (send_data_cycle (Response 200) (run [OnPress (KeyCode None) 2]
            (send_data_cycle RequestException
               (on_move 10 20 1 (started_worker ''s1'' 1 default_api_url))))) =
          network (send_data_cycle RequestException
               (on_move 10 20 1 (started_worker ''s1'' 1 default_api_url))) @ [c] \<and>
        mouse_data c = [move_event 10 20 1] \<and>
        keyboard_data c = [key_event ''press'' JNull 2])"
proof -
  let ?w = "on_move 10 20 1 (started_worker ''s1'' 1 default_api_url)"
  have buffered: "mouse_events ?w = [move_event 10 20 1]" "keyboard_events ?w = []"
    by (simp_all add: on_move_def started_worker_state)
  have recs: "\<not> list_ex is_wake [OnPress (KeyCode None) 2]" by simp
  from raised_post_leaves_buffers [of ?w 200 "[OnPress (KeyCode None) 2]" "Response 200"] buffered recs
  show ?thesis by simp
qed

section \<open>The body of a POST\<close>

lemma step_identity:
  "session_id (step a w) = session_id w \<and> user_id (step a w) = user_id w \<and> api_url (step a w) = api_url w"
  by (cases a)
     (auto simp: on_move_def on_click_def on_scroll_def on_press_def on_release_def
        send_data_cycle_def Let_def split: key.splits post_result.splits)

lemma well_formed_data_to_send:
  "well_formed_call (session_id w) (user_id w) (api_url w)
     \<lparr>post_url = api_url w, post_json = data_to_send w, post_outcome = r\<rparr>"
  unfolding well_formed_call_def mouse_data_call keyboard_data_call
  by (simp add: data_to_send_def)

lemma step_well_formed:
  "list_all (well_formed_call (session_id w) (user_id w) (api_url w)) (network w) \<Longrightarrow>
   list_all (well_formed_call (session_id w) (user_id w) (api_url w)) (network (step a w))"
  by (cases a)
     (auto simp: on_move_def on_click_def on_scroll_def on_press_def on_release_def
        send_data_cycle_def Let_def well_formed_data_to_send split: key.splits post_result.splits)

lemma run_well_formed:
  "list_all (well_formed_call (session_id w) (user_id w) (api_url w)) (network w) \<Longrightarrow>
   list_all (well_formed_call (session_id w) (user_id w) (api_url w)) (network (run ops w))"
proof (induction ops arbitrary: w)
  case Nil
  then show ?case by simp
next
  case (Cons a ops)
  have "list_all (well_formed_call (session_id w) (user_id w) (api_url w)) (network (step a w))"
    using Cons.prems by (rule step_well_formed)
  then have "list_all (well_formed_call (session_id (step a w)) (user_id (step a w)) (api_url (step a w)))
               (network (step a w))"
    by (simp add: step_identity)
  from Cons.IH [OF this] show ?case by (simp add: step_identity)
qed


lemma stop_well_formed:
  "list_all (well_formed_call (session_id w) (user_id w) (api_url w)) (network w) \<Longrightarrow>
   list_all (well_formed_call (session_id w) (user_id w) (api_url w)) (network (fst (stop r w)))"
  by (auto simp: stop_def thread_join_def send_data_cycle_def Let_def well_formed_data_to_send
        well_formed_call_def mouse_data_def keyboard_data_def data_to_send_def dicts_of_map_JObj
        split: option.splits thread_status.splits post_result.splits)

lemma run_identity:
  "session_id (run ops w) = session_id w \<and> user_id (run ops w) = user_id w \<and>
   api_url (run ops w) = api_url w"
  by (induction ops arbitrary: w) (simp_all add: step_identity)

text \<open>
  C8. Every POST made by a worker, in any sequence of callbacks, stop signals and flush
  cycles, and in the final cycle that \<^verbatim>\<open>stop\<close> waits for, goes to the endpoint given at
  construction with a body of exactly the fields \<^verbatim>\<open>session_id\<close>, \<^verbatim>\<open>user_id\<close>,
  \<^verbatim>\<open>mouse_data\<close>, \<^verbatim>\<open>keyboard_data\<close>, the first two holding the values given at
  construction. For the worker made with \<^verbatim>\<open>"s1"\<close> and \<^verbatim>\<open>1\<close> that holds one move at
  (10, 20) and one press of \<^verbatim>\<open>a\<close>, one cycle with an answered POST sends exactly one
  POST, with that move as \<^verbatim>\<open>mouse_data\<close> and that press as \<^verbatim>\<open>keyboard_data\<close>, and
  leaves both buffers empty.
\<close>

theorem every_post_body_well_formed:
  "list_all (well_formed_call sid uid url) (network (run ops (started_worker sid uid url))) \<and>
   list_all (well_formed_call sid uid url)
     (network (fst (stop r (run ops (started_worker sid uid url))))) \<and>
   (let w = on_press (KeyCode (Some ''a'')) t1 (on_move 10 20 t0 (started_worker ''s1'' 1 url));
        w' = send_data_cycle (Response status) w
    in network w' =
         [\<lparr>post_url = url,
            post_json =
              JObj [(''session_id'', JStr ''s1''), (''user_id'', JInt 1),
                    (''mouse_data'',
                       JArr [JObj [(''type'', JStr ''move''), (''x'', JInt 10), (''y'', JInt 20),
                                   (''timestamp'', JNum t0)]]),
                    (''keyboard_data'',
                       JArr [JObj [(''type'', JStr ''press''), (''key'', JStr ''a''),
                                   (''timestamp'', JNum t1)]])],
            post_outcome = Response status\<rparr>] \<and>
       mouse_events w' = [] \<and> keyboard_events w' = [])"
proof (intro conjI)
  show "list_all (well_formed_call sid uid url) (network (run ops (started_worker sid uid url)))"
    using run_well_formed [of "started_worker sid uid url" ops]
    by (simp add: started_worker_state)
next
  define w1 where "w1 = started_worker sid uid url"
  have w1: "session_id w1 = sid" "user_id w1 = uid" "api_url w1 = url" "network w1 = []"
    by (simp_all add: w1_def started_worker_state)
  then have "list_all (well_formed_call (session_id w1) (user_id w1) (api_url w1)) (network w1)"
    by simp
  then have "list_all (well_formed_call (session_id w1) (user_id w1) (api_url w1)) (network (run ops w1))"
    by (rule run_well_formed)
  then have "list_all (well_formed_call (session_id (run ops w1)) (user_id (run ops w1))
                (api_url (run ops w1))) (network (run ops w1))"
    by (simp add: run_identity)
  then have "list_all (well_formed_call (session_id (run ops w1)) (user_id (run ops w1))
                (api_url (run ops w1))) (network (fst (stop r (run ops w1))))"
    by (rule stop_well_formed)
  then show "list_all (well_formed_call sid uid url)
     (network (fst (stop r (run ops (started_worker sid uid url)))))"
    by (simp add: run_identity w1 flip: w1_def)
next
  show "let w = on_press (KeyCode (Some ''a'')) t1 (on_move 10 20 t0 (started_worker ''s1'' 1 url));
        w' = send_data_cycle (Response status) w
    in network w' =
         [\<lparr>post_url = url,
            post_json =
              JObj [(''session_id'', JStr ''s1''), (''user_id'', JInt 1),
                    (''mouse_data'',
                       JArr [JObj [(''type'', JStr ''move''), (''x'', JInt 10), (''y'', JInt 20),
                                   (''timestamp'', JNum t0)]]),
                    (''keyboard_data'',
                       JArr [JObj [(''type'', JStr ''press''), (''key'', JStr ''a''),
                                   (''timestamp'', JNum t1)]])],
            post_outcome = Response status\<rparr>] \<and>
       mouse_events w' = [] \<and> keyboard_events w' = []"
    by (simp add: started_worker_state on_move_def on_press_def send_data_cycle_def
          data_to_send_def move_event_def key_event_def Let_def)
qed

text \<open>The theorem on a move, a press and one answered cycle: one POST, with the four keys.\<close>

theorem every_post_body_well_formed_witness:
  "list_all (well_formed_call ''s1'' 1 default_api_url)
     (network (run [OnMove 10 20 1, OnPress (KeyCode (Some ''a'')) 2, Wake (Response 200)]
                   (started_worker ''s1'' 1 default_api_url))) \<and>
   map (json_keys \<circ> post_json) (network (run [OnMove 10 20 1, OnPress (KeyCode (Some ''a'')) 2, Wake (Response 200)]
                   (started_worker ''s1'' 1 default_api_url))) =
     [[''session_id'', ''user_id'', ''mouse_data'', ''keyboard_data'']]"
proof -
  have sent: "list_all (well_formed_call ''s1'' 1 default_api_url)
     (network (run [OnMove 10 20 1, OnPress (KeyCode (Some ''a'')) 2, Wake (Response 200)]
                   (started_worker ''s1'' 1 default_api_url)))"
    using every_post_body_well_formed [of "''s1''" 1 default_api_url
                  "[OnMove 10 20 1, OnPress (KeyCode (Some ''a'')) 2, Wake (Response 200)]"]
    by (rule conjunct1)
  have one: "map (json_keys \<circ> post_json) (network (run [OnMove 10 20 1, OnPress (KeyCode (Some ''a'')) 2, Wake (Response 200)]
                   (started_worker ''s1'' 1 default_api_url))) =
     [[''session_id'', ''user_id'', ''mouse_data'', ''keyboard_data'']]"
    by (simp add: started_worker_state on_move_def on_press_def send_data_cycle_def
          data_to_send_def Let_def)
  from sent one show ?thesis by (rule conjI)
qed

section \<open>The key field\<close>

text \<open>
  C7, as the code has it. \<^verbatim>\<open>on_press\<close> and \<^verbatim>\<open>on_release\<close> append one event. When the
  key has the attribute \<^verbatim>\<open>char\<close> and it holds a character, the key field is that
  literal character. When the key has no such attribute (reading it raises
  \<^verbatim>\<open>AttributeError\<close>), the key field is the symbolic name \<^verbatim>\<open>Key.<name>\<close>. The choice
  follows the presence of the attribute.
\<close>

theorem key_field_follows_char_attribute:
  "keyboard_events (on_press (KeyCode (Some s)) t w) =
     keyboard_events w @ [[(''type'', JStr ''press''), (''key'', JStr s), (''timestamp'', JNum t)]] \<and>
   keyboard_events (on_press (Key n) t w) =
     keyboard_events w @ [[(''type'', JStr ''press''), (''key'', JStr (''Key.'' @ n)), (''timestamp'', JNum t)]] \<and>
   keyboard_events (on_release (KeyCode (Some s)) t w) =
     keyboard_events w @ [[(''type'', JStr ''release''), (''key'', JStr s), (''timestamp'', JNum t)]] \<and>
   keyboard_events (on_release (Key n) t w) =
     keyboard_events w @ [[(''type'', JStr ''release''), (''key'', JStr (''Key.'' @ n)), (''timestamp'', JNum t)]] \<and>
   mouse_events (on_press k t w) = mouse_events w \<and>
   mouse_events (on_release k t w) = mouse_events w"
  by (cases k) (simp_all add: on_press_def on_release_def key_event_def str_Key_def)

text \<open>The theorem on a press of \<^verbatim>\<open>a\<close> and a release of shift.\<close>

theorem key_field_follows_char_attribute_witness:
  "keyboard_events (on_release (Key ''shift'') 2
      (on_press (KeyCode (Some ''a'')) 1 (BackgroundWorker_init ''s1'' 1 default_api_url))) =
     [[(''type'', JStr ''press''), (''key'', JStr ''a''), (''timestamp'', JNum 1)],
      [(''type'', JStr ''release''), (''key'', JStr ''Key.shift''), (''timestamp'', JNum 2)]]"
  using key_field_follows_char_attribute [of "''a''" 1 "BackgroundWorker_init ''s1'' 1 default_api_url"
          "''shift''"]
        key_field_follows_char_attribute [of "''a''" 2
          "on_press (KeyCode (Some ''a'')) 1 (BackgroundWorker_init ''s1'' 1 default_api_url)" "''shift''"]
  by (simp add: BackgroundWorker_init_def)

text \<open>
  C7 as stated fails on a key whose \<^verbatim>\<open>char\<close> is \<^verbatim>\<open>None\<close>: the key field recorded is
  null, neither a character nor a symbolic name.
\<close>

theorem key_without_char_is_recorded_as_null:
  "keyboard_events (on_press (KeyCode None) 1 (BackgroundWorker_init ''s1'' 1 default_api_url)) =
     [[(''type'', JStr ''press''), (''key'', JNull), (''timestamp'', JNum 1)]] \<and>
   map_of (last (keyboard_events (on_press (KeyCode None) 1
      (BackgroundWorker_init ''s1'' 1 default_api_url)))) ''key'' = Some JNull"
  by (simp add: on_press_def key_event_def BackgroundWorker_init_def)

text \<open>
  C10. For a key whose attribute \<^verbatim>\<open>char\<close> is \<^verbatim>\<open>None\<close>, \<^verbatim>\<open>on_press\<close> and
  \<^verbatim>\<open>on_release\<close> append an event whose key field is null, which is no name string, and
  leave the events before it as they were.
\<close>

theorem char_none_recorded_as_null:
  "map_of (last (keyboard_events (on_press (KeyCode None) t w))) ''key'' = Some JNull \<and>
   map_of (last (keyboard_events (on_release (KeyCode None) t w))) ''key'' = Some JNull \<and>
   butlast (keyboard_events (on_press (KeyCode None) t w)) = keyboard_events w \<and>
   butlast (keyboard_events (on_release (KeyCode None) t w)) = keyboard_events w \<and>
   JNull \<noteq> JStr name"
  by (simp add: on_press_def on_release_def key_event_def)

text \<open>The theorem on a press and a release of such a key on a new worker.\<close>

theorem char_none_recorded_as_null_witness:
  "keyboard_events (on_release (KeyCode None) 2 (on_press (KeyCode None) 1
      (BackgroundWorker_init ''s1'' 1 default_api_url))) =
   [[(''type'', JStr ''press''), (''key'', JNull), (''timestamp'', JNum 1)],
    [(''type'', JStr ''release''), (''key'', JNull), (''timestamp'', JNum 2)]] \<and>
   map_of (last (keyboard_events (on_release (KeyCode None) 2 (on_press (KeyCode None) 1
      (BackgroundWorker_init ''s1'' 1 default_api_url))))) ''key'' = Some JNull"
  using char_none_recorded_as_null [of 2 "on_press (KeyCode None) 1 (BackgroundWorker_init ''s1'' 1 default_api_url)"]
  by (simp add: on_press_def on_release_def key_event_def BackgroundWorker_init_def)

section \<open>Lifecycle\<close>

lemma start_new_worker:
  "start (BackgroundWorker_init sid uid url) =
     ((BackgroundWorker_init sid uid url)
        \<lparr>mouse_listener := Started, keyboard_listener := Started,
         data_thread := Some Started, spawned := 1\<rparr>, Returned)"
  by (simp add: start_def BackgroundWorker_init_def Let_def)

text \<open>
  C4. \<^verbatim>\<open>start\<close> on a running worker creates nothing: the first listener's
  \<^verbatim>\<open>start\<close> raises \<^verbatim>\<open>RuntimeError\<close> before a flush thread is made, and the worker is
  left as it was. After two calls of \<^verbatim>\<open>start\<close> on a new worker, the one pair of
  listeners is active and one flush thread has been spawned and is running. The
  controller's guard makes its second \<^verbatim>\<open>start_background_worker\<close> return at once: the
  worker it holds is the one the first call made and started.
\<close>

theorem second_start_spawns_nothing:
  "(is_running w \<longrightarrow> start w = (w, Raised RuntimeError)) \<and>
   snd (start (BackgroundWorker_init sid uid url)) = Returned \<and>
   is_running (fst (start (BackgroundWorker_init sid uid url))) \<and>
   active_listeners (fst (start (fst (start (BackgroundWorker_init sid uid url))))) = 2 \<and>
   spawned (fst (start (fst (start (BackgroundWorker_init sid uid url))))) = 1 \<and>
   data_thread (fst (start (fst (start (BackgroundWorker_init sid uid url))))) = Some Started \<and>
   (background_worker app = None \<longrightarrow>
      start_background_worker (fst (start_background_worker app)) =
        (fst (start_background_worker app), Returned) \<and>
      background_worker (fst (start_background_worker app)) =
        Some (fst (start (BackgroundWorker_init (app_session_id app) (app_user_id app) default_api_url)))) \<and>
   (background_worker app = Some held \<longrightarrow> start_background_worker app = (app, Returned))"
proof (intro conjI impI)
  assume "background_worker app = Some held"
  then show "start_background_worker app = (app, Returned)"
    by (simp add: start_background_worker_def)
next
  assume run: "is_running w"
  then have "w\<lparr>stop_event := False\<rparr> = w" by (simp add: is_running_def)
  with run show "start w = (w, Raised RuntimeError)"
    by (simp add: start_def is_running_def Let_def)
next
  let ?w1 = "fst (start (BackgroundWorker_init sid uid url))"
  show "snd (start (BackgroundWorker_init sid uid url)) = Returned"
    by (simp add: start_new_worker)
  show running: "is_running ?w1"
    unfolding start_new_worker by (simp add: is_running_def BackgroundWorker_init_def)
  then have "?w1\<lparr>stop_event := False\<rparr> = ?w1" by (simp add: is_running_def)
  with running have again: "fst (start ?w1) = ?w1"
    by (simp add: start_def is_running_def Let_def)
  show "active_listeners (fst (start ?w1)) = 2"
    unfolding again using running by (simp add: active_listeners_def is_running_def)
  show "spawned (fst (start ?w1)) = 1"
    unfolding again by (simp add: start_new_worker)
  show "data_thread (fst (start ?w1)) = Some Started"
    unfolding again using running by (simp add: is_running_def)
next
  assume none: "background_worker app = None"
  then show "start_background_worker (fst (start_background_worker app)) =
        (fst (start_background_worker app), Returned)"
    by (simp add: start_background_worker_def split: prod.splits)
  from none show "background_worker (fst (start_background_worker app)) =
        Some (fst (start (BackgroundWorker_init (app_session_id app) (app_user_id app) default_api_url)))"
    by (simp add: start_background_worker_def split: prod.splits)
qed

text \<open>The theorem on a started worker and on a new controller.\<close>

theorem second_start_spawns_nothing_witness:
  "is_running (fst (start (BackgroundWorker_init ''s1'' 1 default_api_url))) \<and>
   start (fst (start (BackgroundWorker_init ''s1'' 1 default_api_url))) =
     (fst (start (BackgroundWorker_init ''s1'' 1 default_api_url)), Raised RuntimeError) \<and>
   spawned (fst (start (fst (start (BackgroundWorker_init ''s1'' 1 default_api_url))))) = 1 \<and>
   background_worker WindowsApp_init = None \<and>
   start_background_worker (fst (start_background_worker WindowsApp_init)) =
     (fst (start_background_worker WindowsApp_init), Returned)"
proof -
  have none: "background_worker WindowsApp_init = None" by (simp add: WindowsApp_init_def)
  from second_start_spawns_nothing [of "fst (start (BackgroundWorker_init ''s1'' 1 default_api_url))" "''s1''" 1
                  default_api_url WindowsApp_init] none
  show ?thesis by blast
qed

text \<open>
  C5, as the code has it. On a worker that has been started, \<^verbatim>\<open>stop\<close> returns, and a
  second \<^verbatim>\<open>stop\<close> right after it returns too and leaves the worker as the first left
  it. The controller's \<^verbatim>\<open>stop_background_worker\<close> changes nothing when it holds no
  worker, so a second call after one that returned changes nothing.
\<close>

theorem second_stop_changes_nothing:
  "(data_thread w = Some Started \<or> data_thread w = Some Finished \<longrightarrow>
      snd (stop r w) = Returned \<and>
      stop r' (fst (stop r w)) = (fst (stop r w), Returned)) \<and>
   (background_worker app = None \<longrightarrow> stop_background_worker r app = (app, Returned)) \<and>
   (snd (stop_background_worker r app) = Returned \<longrightarrow>
      stop_background_worker r' (fst (stop_background_worker r app)) =
        (fst (stop_background_worker r app), Returned))"
proof (intro conjI impI)
  assume th: "data_thread w = Some Started \<or> data_thread w = Some Finished"
  then show "snd (stop r w) = Returned"
    by (auto simp: stop_def thread_join_def Let_def)
  have idem: "listener_stop (listener_stop s) = listener_stop s" for s
    by (cases s) simp_all
  from th have fin: "data_thread (fst (stop r w)) = Some Finished"
    by (auto simp: stop_def thread_join_def Let_def send_data_cycle_def split: post_result.splits)
  have ev: "stop_event (fst (stop r w))"
    using th by (auto simp: stop_def thread_join_def Let_def send_data_cycle_def split: post_result.splits)
  have ml: "listener_stop (mouse_listener (fst (stop r w))) = mouse_listener (fst (stop r w))"
    using th by (auto simp: stop_def thread_join_def Let_def send_data_cycle_def idem split: post_result.splits)
  have kl: "listener_stop (keyboard_listener (fst (stop r w))) = keyboard_listener (fst (stop r w))"
    using th by (auto simp: stop_def thread_join_def Let_def send_data_cycle_def idem split: post_result.splits)
  define v where "v = fst (stop r w)"
  from fin ev ml kl have "stop r' v = (v, Returned)"
    unfolding v_def [symmetric] by (cases v) (simp add: stop_def thread_join_def Let_def)
  then show "stop r' (fst (stop r w)) = (fst (stop r w), Returned)" by (simp add: v_def)
next
  assume "background_worker app = None"
  then show "stop_background_worker r app = (app, Returned)"
    by (simp add: stop_background_worker_def)
next
  assume "snd (stop_background_worker r app) = Returned"
  then have "background_worker (fst (stop_background_worker r app)) = None"
    by (auto simp: stop_background_worker_def split: option.splits prod.splits outcome.splits)
  then show "stop_background_worker r' (fst (stop_background_worker r app)) =
        (fst (stop_background_worker r app), Returned)"
    by (simp add: stop_background_worker_def)
qed

text \<open>The theorem on a worker just started and on a new controller.\<close>

theorem second_stop_changes_nothing_witness:
  "data_thread (fst (start (BackgroundWorker_init ''s1'' 1 default_api_url))) = Some Started \<and>
   snd (stop (Response 200) (fst (start (BackgroundWorker_init ''s1'' 1 default_api_url)))) = Returned \<and>
   stop RequestException
     (fst (stop (Response 200) (fst (start (BackgroundWorker_init ''s1'' 1 default_api_url))))) =
     (fst (stop (Response 200) (fst (start (BackgroundWorker_init ''s1'' 1 default_api_url)))), Returned) \<and>
   background_worker WindowsApp_init = None \<and>
   stop_background_worker (Response 200) WindowsApp_init = (WindowsApp_init, Returned)"
proof -
  have started: "data_thread (fst (start (BackgroundWorker_init ''s1'' 1 default_api_url))) = Some Started"
    by (simp add: start_new_worker)
  have none: "background_worker WindowsApp_init = None" by (simp add: WindowsApp_init_def)
  from second_stop_changes_nothing [of "fst (start (BackgroundWorker_init ''s1'' 1 default_api_url))"
         "Response 200" RequestException WindowsApp_init] started none
  show ?thesis by blast
qed

text \<open>
  C5 as stated fails on a worker that was never started: \<^verbatim>\<open>stop\<close> sets the stop event
  and then raises \<^verbatim>\<open>AttributeError\<close>, since \<^verbatim>\<open>data_thread\<close> was never assigned.
\<close>

theorem stop_before_start_raises:
  "stop (Response 200) (BackgroundWorker_init ''s1'' 1 default_api_url) =
     ((BackgroundWorker_init ''s1'' 1 default_api_url)\<lparr>stop_event := True\<rparr>, Raised AttributeError) \<and>
   (BackgroundWorker_init ''s1'' 1 default_api_url)\<lparr>stop_event := True\<rparr> \<noteq>
     BackgroundWorker_init ''s1'' 1 default_api_url"
  by (simp add: stop_def BackgroundWorker_init_def Let_def)

end
